theory Spec2Isabelle
  imports Main
begin

section \<open>Roles and permissions (auth/const.py)\<close>

definition ROLE_ADMIN :: int where "ROLE_ADMIN = 5"
definition ROLE_OWNER :: int where "ROLE_OWNER = 4"
definition ROLE_EDITOR :: int where "ROLE_EDITOR = 3"
definition ROLE_CONTRIBUTOR :: int where "ROLE_CONTRIBUTOR = 2"
definition ROLE_MEMBER :: int where "ROLE_MEMBER = 1"
definition ROLE_GUEST :: int where "ROLE_GUEST = 0"
definition ROLE_DISABLED :: int where "ROLE_DISABLED = - 1"
definition ROLE_UNCONFIRMED :: int where "ROLE_UNCONFIRMED = - 2"

definition PERM_ADD_OTHER_TREE_USER :: string where
  "PERM_ADD_OTHER_TREE_USER = ''AddOtherTreeUser''"
definition PERM_EDIT_OTHER_TREE_USER :: string where
  "PERM_EDIT_OTHER_TREE_USER = ''EditOtherTreeUser''"
definition PERM_EDIT_OTHER_TREE_USER_ROLE :: string where
  "PERM_EDIT_OTHER_TREE_USER_ROLE = ''EditOtherTreeUserRole''"
definition PERM_VIEW_OTHER_TREE_USER :: string where
  "PERM_VIEW_OTHER_TREE_USER = ''ViewOtherTreeUser''"
definition PERM_DEL_OTHER_TREE_USER :: string where
  "PERM_DEL_OTHER_TREE_USER = ''DeleteOtherTreeUser''"

definition PERM_ADD_USER :: string where "PERM_ADD_USER = ''AddUser''"
definition PERM_EDIT_OWN_USER :: string where "PERM_EDIT_OWN_USER = ''EditOwnUser''"
definition PERM_EDIT_OTHER_USER :: string where "PERM_EDIT_OTHER_USER = ''EditOtherUser''"
definition PERM_EDIT_USER_ROLE :: string where "PERM_EDIT_USER_ROLE = ''EditUserRole''"
definition PERM_MAKE_ADMIN :: string where "PERM_MAKE_ADMIN = ''MakeAdmin''"
definition PERM_VIEW_OTHER_USER :: string where "PERM_VIEW_OTHER_USER = ''ViewOtherUser''"
definition PERM_DEL_USER :: string where "PERM_DEL_USER = ''DeleteUser''"
definition PERM_VIEW_PRIVATE :: string where "PERM_VIEW_PRIVATE = ''ViewPrivate''"
definition PERM_EDIT_OBJ :: string where "PERM_EDIT_OBJ = ''EditObject''"
definition PERM_ADD_OBJ :: string where "PERM_ADD_OBJ = ''AddObject''"
definition PERM_DEL_OBJ :: string where "PERM_DEL_OBJ = ''DeleteObject''"
definition PERM_IMPORT_FILE :: string where "PERM_IMPORT_FILE = ''ImportFile''"
definition PERM_VIEW_SETTINGS :: string where "PERM_VIEW_SETTINGS = ''ViewSettings''"
definition PERM_EDIT_SETTINGS :: string where "PERM_EDIT_SETTINGS = ''EditSettings''"
definition PERM_TRIGGER_REINDEX :: string where "PERM_TRIGGER_REINDEX = ''TriggerReindex''"
definition PERM_EDIT_NAME_GROUP :: string where "PERM_EDIT_NAME_GROUP = ''EditNameGroup''"

text \<open>
  The module fills the dictionary \<open>PERMISSIONS\<close> one role at a time, each entry being
  the entry of the role below united with a set literal. The six entries are named here
  in the order of the assignments; \<open>PERMISSIONS\<close> is the finished dictionary.
\<close>

definition PERMISSIONS_GUEST :: "string set" where
  "PERMISSIONS_GUEST = {PERM_EDIT_OWN_USER}"

definition PERMISSIONS_MEMBER :: "string set" where
  "PERMISSIONS_MEMBER = PERMISSIONS_GUEST \<union> {PERM_VIEW_PRIVATE}"

definition PERMISSIONS_CONTRIBUTOR :: "string set" where
  "PERMISSIONS_CONTRIBUTOR =
     PERMISSIONS_MEMBER \<union> {PERM_EDIT_OWN_USER, PERM_VIEW_PRIVATE, PERM_ADD_OBJ}"

definition PERMISSIONS_EDITOR :: "string set" where
  "PERMISSIONS_EDITOR =
     PERMISSIONS_CONTRIBUTOR \<union> {PERM_EDIT_OBJ, PERM_DEL_OBJ, PERM_EDIT_NAME_GROUP}"

definition PERMISSIONS_OWNER :: "string set" where
  "PERMISSIONS_OWNER =
     PERMISSIONS_EDITOR \<union>
       {PERM_ADD_USER, PERM_DEL_USER, PERM_EDIT_OTHER_USER, PERM_EDIT_USER_ROLE,
        PERM_VIEW_OTHER_USER, PERM_IMPORT_FILE, PERM_TRIGGER_REINDEX}"

definition PERMISSIONS_ADMIN :: "string set" where
  "PERMISSIONS_ADMIN =
     PERMISSIONS_OWNER \<union>
       {PERM_ADD_OTHER_TREE_USER, PERM_VIEW_OTHER_TREE_USER, PERM_EDIT_OTHER_TREE_USER,
        PERM_EDIT_OTHER_TREE_USER_ROLE, PERM_MAKE_ADMIN, PERM_DEL_OTHER_TREE_USER,
        PERM_VIEW_SETTINGS, PERM_EDIT_SETTINGS}"

definition PERMISSIONS :: "int \<rightharpoonup> string set" where
  "PERMISSIONS =
     [ROLE_GUEST \<mapsto> PERMISSIONS_GUEST,
      ROLE_MEMBER \<mapsto> PERMISSIONS_MEMBER,
      ROLE_CONTRIBUTOR \<mapsto> PERMISSIONS_CONTRIBUTOR,
      ROLE_EDITOR \<mapsto> PERMISSIONS_EDITOR,
      ROLE_OWNER \<mapsto> PERMISSIONS_OWNER,
      ROLE_ADMIN \<mapsto> PERMISSIONS_ADMIN]"

definition CLAIM_LIMITED_SCOPE :: string where "CLAIM_LIMITED_SCOPE = ''limited_scope''"
definition SCOPE_RESET_PW :: string where "SCOPE_RESET_PW = ''reset_password''"
definition SCOPE_CONF_EMAIL :: string where "SCOPE_CONF_EMAIL = ''confirm_email''"
definition SCOPE_CREATE_ADMIN :: string where "SCOPE_CREATE_ADMIN = ''create_admin''"

section \<open>The user table and its operations (auth/__init__.py)\<close>

text \<open>
  Exceptions are values. \<open>HTTPException n\<close> is what \<open>abort(n)\<close> raises; the others are
  the Python and SQLAlchemy exceptions that the modelled code raises or lets through.
\<close>

datatype exc =
    ValueError string
  | TypeError string
  | KeyError string
  | IntegrityError
  | NoResultFound
  | MultipleResultsFound
  | HTTPException nat

text \<open>Python values that cross the HTTP boundary: response bodies and dictionaries.\<close>

datatype pyval =
    PyNone
  | PyStr string
  | PyInt int
  | PyDict "(string \<times> pyval) list"

text \<open>
  A row of the table \<open>users\<close>. The column \<open>id\<close> is the primary key; \<open>name\<close> and
  \<open>pwhash\<close> are not nullable; \<open>name\<close> and \<open>email\<close> are unique; \<open>role\<close> has the
  default 0, which the ORM also uses when the attribute is given as \<open>None\<close>.
\<close>

record User =
  id' :: string
  name :: string
  email :: "string option"
  fullname :: "string option"
  pwhash :: string
  role :: int
  tree :: "string option"

text \<open>
  Code of other modules that the modelled functions call is a parameter:
  \<open>hash_password\<close> and \<open>verify_password\<close> (auth/passwords.py; the salt drawn by a call
  is part of the parameter), \<open>guid_ok\<close> (auth/sql_guid.py: binding a malformed GUID makes
  the query raise StatementError) and \<open>get_tree_id\<close> (api/util.py).
\<close>

record env =
  hash_password :: "string \<Rightarrow> string"
  verify_password :: "string \<Rightarrow> string \<Rightarrow> bool"
  guid_ok :: "string \<Rightarrow> bool"
  get_tree_id :: "User list \<Rightarrow> string \<Rightarrow> exc + string"

text \<open>
  What a request carries: the identity and the claims of its JSON web token, the tree
  named in the token and the permissions of the caller.
\<close>

record request =
  jwt_identity :: string
  jwt_claims :: "(string \<times> string) list"
  tree_from_jwt :: string
  caller_permissions :: "string set"

definition getitem :: "(string \<times> 'a) list \<Rightarrow> string \<Rightarrow> exc + 'a" where
  "getitem d k = (case map_of d k of None \<Rightarrow> Inl (KeyError k) | Some v \<Rightarrow> Inr v)"

definition filter_by_name :: "string \<Rightarrow> User list \<Rightarrow> User list" where
  "filter_by_name n db = filter (\<lambda>u. name u = n) db"

definition filter_by_id :: "string \<Rightarrow> User list \<Rightarrow> User list" where
  "filter_by_id g db = filter (\<lambda>u. id' u = g) db"

text \<open>\<open>Query.scalar()\<close>: no row is \<open>None\<close>, one row is that row, more rows raise.\<close>

fun scalar :: "'a list \<Rightarrow> exc + 'a option" where
  "scalar [] = Inr None"
| "scalar [x] = Inr (Some x)"
| "scalar (x # y # ys) = Inl MultipleResultsFound"

text \<open>\<open>Query.one()\<close>: exactly one row, otherwise an exception.\<close>

fun one' :: "'a list \<Rightarrow> exc + 'a" where
  "one' [] = Inl NoResultFound"
| "one' [x] = Inr x"
| "one' (x # y # ys) = Inl MultipleResultsFound"

text \<open>
  The constraints of the table as the commit of an INSERT checks them: the new row must
  not repeat a primary key, a name, or an email that is not NULL.
\<close>

definition insert_conflict :: "User \<Rightarrow> User list \<Rightarrow> bool" where
  "insert_conflict new db =
     list_ex (\<lambda>u. id' u = id' new \<or> name u = name new \<or>
                  (email new \<noteq> None \<and> email u = email new)) db"

text \<open>The same for the commit of an UPDATE of the row with primary key \<open>id' new\<close>.\<close>

definition update_conflict :: "User \<Rightarrow> User list \<Rightarrow> bool" where
  "update_conflict new db =
     list_ex (\<lambda>u. id' u \<noteq> id' new \<and>
                  (name u = name new \<or> (email new \<noteq> None \<and> email u = email new))) db"

text \<open>
  \<open>add_user\<close>; \<open>uuid4\<close> is the identifier drawn by \<open>uuid.uuid4()\<close>. An IntegrityError at
  the commit leaves the table as it was.
\<close>

definition add_user ::
  "env \<Rightarrow> string \<Rightarrow> User list \<Rightarrow> string \<Rightarrow> string \<Rightarrow> string option \<Rightarrow> string option \<Rightarrow>
   int option \<Rightarrow> string option \<Rightarrow> (exc + unit) \<times> User list" where
  "add_user ev uuid4 db name' password fullname' email' role' tree' =
     (if name' = '''' then (Inl (ValueError ''Username must not be empty''), db)
      else if password = '''' then (Inl (ValueError ''Password must not be empty''), db)
      else
        let user = \<lparr>id' = uuid4, name = name', email = email', fullname = fullname',
                    pwhash = hash_password ev password,
                    role = (case role' of None \<Rightarrow> 0 | Some r \<Rightarrow> r), tree = tree'\<rparr>
        in if insert_conflict user db
           then (Inl (ValueError ''Invalid or existing user''), db)
           else (Inr (), db @ [user]))"

definition get_guid :: "User list \<Rightarrow> string \<Rightarrow> exc + string" where
  "get_guid db name' =
     (case scalar (map id' (filter_by_name name' db)) of
        Inl e \<Rightarrow> Inl e
      | Inr None \<Rightarrow> Inl (ValueError (''User '' @ name' @ '' not found''))
      | Inr (Some user_id) \<Rightarrow> Inr user_id)"

definition get_name :: "env \<Rightarrow> User list \<Rightarrow> string \<Rightarrow> exc + string" where
  "get_name ev db guid =
     (if \<not> guid_ok ev guid then Inl (ValueError (''User ID '' @ guid @ '' not found''))
      else
        (case scalar (map name (filter_by_id guid db)) of
           Inl e \<Rightarrow> Inl e
         | Inr None \<Rightarrow> Inl (ValueError (''User ID '' @ guid @ '' not found''))
         | Inr (Some user_name) \<Rightarrow> Inr user_name))"

definition modify_user ::
  "env \<Rightarrow> User list \<Rightarrow> string \<Rightarrow> string option \<Rightarrow> string option \<Rightarrow> string option \<Rightarrow>
   string option \<Rightarrow> int option \<Rightarrow> string option \<Rightarrow> (exc + unit) \<times> User list" where
  "modify_user ev db name' name_new password fullname' email' role' tree' =
     (case one' (filter_by_name name' db) of
        Inl e \<Rightarrow> (Inl e, db)
      | Inr user \<Rightarrow>
          let user1 = (case name_new of None \<Rightarrow> user | Some v \<Rightarrow> user\<lparr>name := v\<rparr>);
              user2 = (case password of None \<Rightarrow> user1
                       | Some v \<Rightarrow> user1\<lparr>pwhash := hash_password ev v\<rparr>);
              user3 = (case fullname' of None \<Rightarrow> user2 | Some v \<Rightarrow> user2\<lparr>fullname := Some v\<rparr>);
              user4 = (case email' of None \<Rightarrow> user3 | Some v \<Rightarrow> user3\<lparr>email := Some v\<rparr>);
              user5 = (case role' of None \<Rightarrow> user4 | Some v \<Rightarrow> user4\<lparr>role := v\<rparr>);
              user6 = (case tree' of None \<Rightarrow> user5 | Some v \<Rightarrow> user5\<lparr>tree := Some v\<rparr>)
          in if update_conflict user6 db then (Inl IntegrityError, db)
             else (Inr (), map (\<lambda>u. if id' u = id' user then user6 else u) db))"

definition authorized :: "env \<Rightarrow> User list \<Rightarrow> string \<Rightarrow> string \<Rightarrow> exc + bool" where
  "authorized ev db username password =
     (case scalar (filter_by_name username db) of
        Inl e \<Rightarrow> Inl e
      | Inr None \<Rightarrow> Inr False
      | Inr (Some user) \<Rightarrow>
          if role user < 0 then Inr False
          else Inr (verify_password ev password (pwhash user)))"

definition get_pwhash :: "User list \<Rightarrow> string \<Rightarrow> exc + string" where
  "get_pwhash db username =
     (case one' (filter_by_name username db) of
        Inl e \<Rightarrow> Inl e
      | Inr user \<Rightarrow> Inr (pwhash user))"

definition opt_str :: "string option \<Rightarrow> pyval" where
  "opt_str v = (case v of None \<Rightarrow> PyNone | Some s \<Rightarrow> PyStr s)"

definition get_user_detail :: "User \<Rightarrow> (string \<times> pyval) list" where
  "get_user_detail user =
     [(''name'', PyStr (name user)),
      (''email'', opt_str (email user)),
      (''full_name'', opt_str (fullname user)),
      (''role'', PyInt (role user)),
      (''tree'', opt_str (tree user))]"

definition get_user_details :: "User list \<Rightarrow> string \<Rightarrow> exc + (string \<times> pyval) list option" where
  "get_user_details db username =
     (case scalar (filter_by_name username db) of
        Inl e \<Rightarrow> Inl e
      | Inr None \<Rightarrow> Inr None
      | Inr (Some user) \<Rightarrow> Inr (Some (get_user_detail user)))"

definition get_number_users :: "User list \<Rightarrow> string option \<Rightarrow> int list option \<Rightarrow> nat" where
  "get_number_users db tree' roles =
     (let q1 = (case roles of None \<Rightarrow> db | Some rs \<Rightarrow> filter (\<lambda>u. role u \<in> set rs) db);
          q2 = (case tree' of None \<Rightarrow> q1 | Some t \<Rightarrow> filter (\<lambda>u. tree u = Some t) q1)
      in length q2)"

definition coalesce :: "'a option \<Rightarrow> 'a \<Rightarrow> 'a" where
  "coalesce v d = (case v of None \<Rightarrow> d | Some x \<Rightarrow> x)"

definition fill_tree :: "User list \<Rightarrow> string \<Rightarrow> User list" where
  "fill_tree db tree' =
     map (\<lambda>u. if coalesce (tree u) '''' = '''' then u\<lparr>tree := Some tree'\<rparr> else u) db"

section \<open>The task dispatcher (api/tasks.py)\<close>

text \<open>
  A Celery task can be called (it runs now and returns its value, or raises) or delayed
  (it is queued and an \<open>AsyncResult\<close> comes back). \<open>CELERY_CONFIG\<close> is a dictionary of
  the application's configuration; it is falsy when it is \<open>None\<close> or empty.
\<close>

record AsyncResult =
  task_id :: string

record ('k, 'a) task =
  call :: "'k \<Rightarrow> exc + 'a"
  delay :: "'k \<Rightarrow> exc + AsyncResult"

datatype 'a task_return = Value 'a | Handle AsyncResult

definition truthy :: "(string \<times> string) list option \<Rightarrow> bool" where
  "truthy cfg = (case cfg of None \<Rightarrow> False | Some d \<Rightarrow> d \<noteq> [])"

definition run_task ::
  "(string \<times> string) list option \<Rightarrow> ('k, 'a) task \<Rightarrow> 'k \<Rightarrow> exc + 'a task_return" where
  "run_task CELERY_CONFIG t kwargs =
     (if \<not> truthy CELERY_CONFIG then
        (case call t kwargs of Inl e \<Rightarrow> Inl e | Inr v \<Rightarrow> Inr (Value v))
      else
        (case delay t kwargs of Inl e \<Rightarrow> Inl e | Inr a \<Rightarrow> Inr (Handle a)))"

definition make_task_response :: "AsyncResult \<Rightarrow> pyval \<times> nat" where
  "make_task_response t =
     (let url = ''/api/tasks/'' @ task_id t;
          payload = PyDict [(''task'', PyDict [(''href'', PyStr url), (''id'', PyStr (task_id t))])]
      in (payload, 202))"

section \<open>The user endpoints (api/resources/user.py)\<close>

text \<open>
  Modelled from the spec: \<open>has_permissions\<close> and \<open>require_permissions\<close> of api/auth.py,
  which is not among the sources. \<open>has\<close> returns whether the caller's permissions cover
  the required ones; \<open>require\<close> aborts the request with 403 when they do not.
\<close>

definition has_permissions :: "request \<Rightarrow> string list \<Rightarrow> bool" where
  "has_permissions rq scope = (set scope \<subseteq> caller_permissions rq)"

definition require_permissions :: "request \<Rightarrow> string list \<Rightarrow> exc + unit" where
  "require_permissions rq scope =
     (if has_permissions rq scope then Inr () else Inl (HTTPException 403))"

text \<open>
  \<open>create_access_token\<close> of flask_jwt_extended signs an identity, additional claims and
  a lifetime (here in hours); the token is the data it carries.
\<close>

record token =
  identity :: string
  additional_claims :: "(string \<times> string) list"
  expires_delta :: nat

definition create_access_token :: "string \<Rightarrow> (string \<times> string) list \<Rightarrow> nat \<Rightarrow> token" where
  "create_access_token i cs h = \<lparr>identity = i, additional_claims = cs, expires_delta = h\<rparr>"

text \<open>
  \<open>UserChangeBase.prepare_edit\<close>. The handler around \<open>get_guid\<close> is written
  \<open>except ValueError():\<close>; matching any exception against an instance raises TypeError,
  so every exception of \<open>get_guid\<close> leaves the function as a TypeError.
\<close>

definition prepare_edit :: "env \<Rightarrow> request \<Rightarrow> User list \<Rightarrow> string \<Rightarrow> exc + string \<times> bool" where
  "prepare_edit ev rq db user_name =
     (if user_name = ''-'' then
        (case require_permissions rq [PERM_EDIT_OWN_USER] of
           Inl e \<Rightarrow> Inl e
         | Inr _ \<Rightarrow>
             (case get_name ev db (jwt_identity rq) of
                Inl (ValueError m) \<Rightarrow> Inl (HTTPException 401)
              | Inl e \<Rightarrow> Inl e
              | Inr user_name' \<Rightarrow> Inr (user_name', False)))
      else
        (case get_guid db user_name of
           Inl e \<Rightarrow>
             Inl (TypeError ''catching classes that do not inherit from BaseException is not allowed'')
         | Inr user_id \<Rightarrow>
             let source_tree = tree_from_jwt rq in
             (case get_tree_id ev db user_id of
                Inl e \<Rightarrow> Inl e
              | Inr destination_tree \<Rightarrow>
                  if source_tree = destination_tree then
                    (case require_permissions rq [PERM_EDIT_OTHER_USER] of
                       Inl e \<Rightarrow> Inl e
                     | Inr _ \<Rightarrow> Inr (user_name, False))
                  else
                    (case require_permissions rq [PERM_EDIT_OTHER_TREE_USER] of
                       Inl e \<Rightarrow> Inl e
                     | Inr _ \<Rightarrow> Inr (user_name, True)))))"

text \<open>\<open>UserResource.get\<close>: the name the request resolves to, the tree check, the details.\<close>

definition get_resolve :: "env \<Rightarrow> request \<Rightarrow> User list \<Rightarrow> string \<Rightarrow> exc + string" where
  "get_resolve ev rq db user_name =
     (if user_name = ''-'' then
        (case get_name ev db (jwt_identity rq) of
           Inl (ValueError m) \<Rightarrow> Inl (HTTPException 401)
         | Inl e \<Rightarrow> Inl e
         | Inr user_name' \<Rightarrow> Inr user_name')
      else
        (case require_permissions rq [PERM_VIEW_OTHER_USER] of
           Inl e \<Rightarrow> Inl e
         | Inr _ \<Rightarrow> Inr user_name))"

definition get_tree_check :: "env \<Rightarrow> request \<Rightarrow> User list \<Rightarrow> string \<Rightarrow> exc + unit" where
  "get_tree_check ev rq db user_name =
     (if user_name \<noteq> ''_'' \<and> \<not> has_permissions rq [PERM_VIEW_OTHER_TREE_USER] then
        (case get_guid db user_name of
           Inl (ValueError m) \<Rightarrow> Inl (HTTPException 404)
         | Inl e \<Rightarrow> Inl e
         | Inr user_id \<Rightarrow>
             let source_tree = tree_from_jwt rq in
             (case get_tree_id ev db user_id of
                Inl e \<Rightarrow> Inl e
              | Inr destination_tree \<Rightarrow>
                  if source_tree \<noteq> destination_tree then Inl (HTTPException 403)
                  else Inr ()))
      else Inr ())"

definition UserResource_get :: "env \<Rightarrow> request \<Rightarrow> User list \<Rightarrow> string \<Rightarrow> exc + pyval \<times> nat" where
  "UserResource_get ev rq db user_name =
     (case get_resolve ev rq db user_name of
        Inl e \<Rightarrow> Inl e
      | Inr user_name' \<Rightarrow>
          (case get_tree_check ev rq db user_name' of
             Inl e \<Rightarrow> Inl e
           | Inr _ \<Rightarrow>
               (case get_user_details db user_name' of
                  Inl e \<Rightarrow> Inl e
                | Inr None \<Rightarrow> Inl (HTTPException 404)
                | Inr (Some details) \<Rightarrow> Inr (PyDict details, 200))))"

text \<open>\<open>UserResource.put\<close>; the arguments are the optional fields of the JSON body.\<close>

record put_args =
  put_email :: "string option"
  put_full_name :: "string option"
  put_role :: "int option"

definition put_role_check :: "request \<Rightarrow> put_args \<Rightarrow> bool \<Rightarrow> exc + unit" where
  "put_role_check rq args other_tree =
     (case put_role args of
        None \<Rightarrow> Inr ()
      | Some r \<Rightarrow>
          (case (if r \<ge> ROLE_ADMIN then require_permissions rq [PERM_MAKE_ADMIN] else Inr ()) of
             Inl e \<Rightarrow> Inl e
           | Inr _ \<Rightarrow>
               if other_tree then require_permissions rq [PERM_EDIT_OTHER_TREE_USER_ROLE]
               else require_permissions rq [PERM_EDIT_USER_ROLE]))"

definition UserResource_put ::
  "env \<Rightarrow> request \<Rightarrow> User list \<Rightarrow> put_args \<Rightarrow> string \<Rightarrow> (exc + pyval \<times> nat) \<times> User list" where
  "UserResource_put ev rq db args user_name =
     (case prepare_edit ev rq db user_name of
        Inl e \<Rightarrow> (Inl e, db)
      | Inr (user_name', other_tree) \<Rightarrow>
          (case put_role_check rq args other_tree of
             Inl e \<Rightarrow> (Inl e, db)
           | Inr _ \<Rightarrow>
               (case modify_user ev db user_name' None None (put_full_name args)
                       (put_email args) (put_role args) None of
                  (Inl e, db') \<Rightarrow> (Inl e, db')
                | (Inr _, db') \<Rightarrow> (Inr (PyStr '''', 200), db'))))"

text \<open>
  \<open>UserChangePasswordResource.post\<close>. The guard compares \<open>len(args["new_password"])\<close>,
  an integer, with the string \<open>""\<close>.
\<close>

record change_args =
  old_password :: string
  new_password :: string

definition UserChangePasswordResource_post ::
  "env \<Rightarrow> request \<Rightarrow> User list \<Rightarrow> change_args \<Rightarrow> string \<Rightarrow> (exc + pyval \<times> nat) \<times> User list" where
  "UserChangePasswordResource_post ev rq db args user_name =
     (case prepare_edit ev rq db user_name of
        Inl e \<Rightarrow> (Inl e, db)
      | Inr (user_name', other_tree) \<Rightarrow>
          if PyInt (int (length (new_password args))) = PyStr '''' then
            (Inl (HTTPException 400), db)
          else
            (case authorized ev db user_name' (old_password args) of
               Inl e \<Rightarrow> (Inl e, db)
             | Inr ok \<Rightarrow>
                 if \<not> ok then (Inl (HTTPException 403), db)
                 else
                   (case modify_user ev db user_name' None (Some (new_password args))
                           None None None None of
                      (Inl e, db') \<Rightarrow> (Inl e, db')
                    | (Inr _, db') \<Rightarrow> (Inr (PyStr '''', 201), db'))))"

text \<open>
  \<open>UserRegisterResource.post\<close>; \<open>t\<close> is the task \<open>send_email_confirm_email\<close>, which
  receives the email and the token. The model is the body of the method: the rate limit
  and the parsing of the arguments, which the decorators do before the body runs, belong
  to api/ratelimiter.py and api/util.py.
\<close>

record register_args =
  reg_email :: string
  reg_full_name :: string
  reg_password :: string
  reg_tree :: "string option"

definition UserRegisterResource_post ::
  "env \<Rightarrow> (string \<times> string) list option \<Rightarrow> (string \<times> token, 'a) task \<Rightarrow> string \<Rightarrow>
   User list \<Rightarrow> register_args \<Rightarrow> string \<Rightarrow> (exc + pyval \<times> nat) \<times> User list" where
  "UserRegisterResource_post ev CELERY_CONFIG t uuid4 db args user_name =
     (if user_name = ''-'' then (Inl (HTTPException 404), db)
      else if get_number_users db (reg_tree args) (Some [ROLE_OWNER]) = 0 then
        (Inl (HTTPException 405), db)
      else
        (case add_user ev uuid4 db user_name (reg_password args) (Some (reg_full_name args))
                (Some (reg_email args)) (Some ROLE_UNCONFIRMED) (reg_tree args) of
           (Inl (ValueError m), db') \<Rightarrow> (Inl (HTTPException 409), db')
         | (Inl e, db') \<Rightarrow> (Inl e, db')
         | (Inr _, db') \<Rightarrow>
             (case get_guid db' user_name of
                Inl e \<Rightarrow> (Inl e, db')
              | Inr user_id \<Rightarrow>
                  let tok = create_access_token user_id
                              [(''email'', reg_email args), (CLAIM_LIMITED_SCOPE, SCOPE_CONF_EMAIL)] 1
                  in (case run_task CELERY_CONFIG t (reg_email args, tok) of
                        Inl e \<Rightarrow> (Inl e, db')
                      | Inr _ \<Rightarrow> (Inr (PyStr '''', 201), db')))))"

text \<open>
  \<open>UserTriggerResetPasswordResource.post\<close>; \<open>t\<close> is the task
  \<open>send_email_reset_password\<close>. The second component of the result is the token that
  the handler hands to the task, \<open>None\<close> when it stops before creating one.
\<close>

definition UserTriggerResetPasswordResource_post ::
  "(string \<times> string) list option \<Rightarrow> (pyval \<times> token, 'a) task \<Rightarrow> User list \<Rightarrow> string \<Rightarrow>
   (exc + pyval \<times> nat) \<times> token option" where
  "UserTriggerResetPasswordResource_post CELERY_CONFIG t db user_name =
     (if user_name = ''-'' then (Inl (HTTPException 404), None)
      else
        (case get_user_details db user_name of
           Inl e \<Rightarrow> (Inl e, None)
         | Inr None \<Rightarrow> (Inl (HTTPException 404), None)
         | Inr (Some details) \<Rightarrow>
             (case getitem details ''email'' of
                Inl e \<Rightarrow> (Inl e, None)
              | Inr email' \<Rightarrow>
                  if email' = PyNone then (Inl (HTTPException 404), None)
                  else
                    (case get_guid db user_name of
                       Inl e \<Rightarrow> (Inl e, None)
                     | Inr user_id \<Rightarrow>
                         (case get_pwhash db user_name of
                            Inl e \<Rightarrow> (Inl e, None)
                          | Inr h \<Rightarrow>
                              let tok = create_access_token user_id
                                          [(''old_hash'', h), (CLAIM_LIMITED_SCOPE, SCOPE_RESET_PW)] 1
                              in (case run_task CELERY_CONFIG t (email', tok) of
                                    Inl (ValueError m) \<Rightarrow> (Inl (HTTPException 500), Some tok)
                                  | Inl e \<Rightarrow> (Inl e, Some tok)
                                  | Inr (Handle a) \<Rightarrow> (Inr (make_task_response a), Some tok)
                                  | Inr (Value v) \<Rightarrow> (Inr (PyStr '''', 201), Some tok)))))))"

text \<open>\<open>UserResetPasswordResource.post\<close>; the request carries the reset token.\<close>

definition UserResetPasswordResource_post ::
  "env \<Rightarrow> request \<Rightarrow> User list \<Rightarrow> string \<Rightarrow> (exc + pyval \<times> nat) \<times> User list" where
  "UserResetPasswordResource_post ev rq db new_password' =
     (if new_password' = '''' then (Inl (HTTPException 400), db)
      else
        let claims = jwt_claims rq in
        (case getitem claims CLAIM_LIMITED_SCOPE of
           Inl e \<Rightarrow> (Inl e, db)
         | Inr scope \<Rightarrow>
             if scope \<noteq> SCOPE_RESET_PW then (Inl (HTTPException 403), db)
             else
               let user_id = jwt_identity rq in
               (case get_name ev db user_id of
                  Inl (ValueError m) \<Rightarrow> (Inl (HTTPException 401), db)
                | Inl e \<Rightarrow> (Inl e, db)
                | Inr username \<Rightarrow>
                    (case getitem claims ''old_hash'' of
                       Inl e \<Rightarrow> (Inl e, db)
                     | Inr old_hash \<Rightarrow>
                         (case get_pwhash db username of
                            Inl e \<Rightarrow> (Inl e, db)
                          | Inr h \<Rightarrow>
                              if old_hash \<noteq> h then (Inl (HTTPException 409), db)
                              else
                                (case modify_user ev db username None (Some new_password')
                                        None None None None of
                                   (Inl e, db') \<Rightarrow> (Inl e, db')
                                 | (Inr _, db') \<Rightarrow> (Inr (PyStr '''', 201), db')))))))"

text \<open>The request that presents a token: its identity and its claims are the token's.\<close>

definition request_of_token :: "token \<Rightarrow> string \<Rightarrow> string set \<Rightarrow> request" where
  "request_of_token tok tr ps =
     \<lparr>jwt_identity = identity tok, jwt_claims = additional_claims tok,
      tree_from_jwt = tr, caller_permissions = ps\<rparr>"

section \<open>The constraints of the table as an invariant\<close>

text \<open>
  What the database guarantees of every committed state of \<open>users\<close>: the primary key and
  the two unique columns, where NULL emails do not count as equal.
\<close>

definition table_ok :: "User list \<Rightarrow> bool" where
  "table_ok db \<longleftrightarrow>
     distinct (map id' db) \<and> distinct (map name db) \<and>
     distinct (filter (\<lambda>e. e \<noteq> None) (map email db))"

section \<open>Counting owners as the specification does\<close>

text \<open>
  The registration guard is specified by a count of the users with the owner role in the
  target tenant of the request. \<open>owners_in_tenant\<close> follows these words: it counts the
  rows whose role is \<open>ROLE_OWNER\<close> and whose tree is the tenant of the request, which is
  absent when the request names none. \<open>owners_anywhere\<close> counts the owners of every tree.
  Both are stated apart from \<open>get_number_users\<close>, to be compared with it.
\<close>

definition owners_in_tenant :: "User list \<Rightarrow> string option \<Rightarrow> nat" where
  "owners_in_tenant db tenant =
     length (filter (\<lambda>u. role u = ROLE_OWNER \<and> tree u = tenant) db)"

definition owners_anywhere :: "User list \<Rightarrow> nat" where
  "owners_anywhere db = length (filter (\<lambda>u. role u = ROLE_OWNER) db)"

section \<open>Example data\<close>

definition ev0 :: env where
  "ev0 = \<lparr>hash_password = (\<lambda>p. ''h:'' @ p),
          verify_password = (\<lambda>p h. h = ''h:'' @ p),
          guid_ok = (\<lambda>g. True),
          get_tree_id = (\<lambda>db g. case scalar (map tree (filter_by_id g db)) of
                                   Inr (Some (Some tr)) \<Rightarrow> Inr tr
                                 | _ \<Rightarrow> Inl (HTTPException 403))\<rparr>"

definition alice :: User where
  "alice = \<lparr>id' = ''g1'', name = ''alice'', email = Some ''alice@example.org'',
            fullname = Some ''Alice'', pwhash = ''h:secret'', role = 4, tree = Some ''A''\<rparr>"

definition bob :: User where
  "bob = \<lparr>id' = ''g2'', name = ''bob'', email = Some ''bob@example.org'',
          fullname = None, pwhash = ''h:pw'', role = - 1, tree = Some ''A''\<rparr>"

definition underscore :: User where
  "underscore = \<lparr>id' = ''g3'', name = ''_'', email = None,
                 fullname = None, pwhash = ''h:x'', role = 1, tree = Some ''B''\<rparr>"

definition carol :: User where
  "carol = \<lparr>id' = ''g4'', name = ''carol'', email = None,
            fullname = None, pwhash = ''h:y'', role = 1, tree = Some ''B''\<rparr>"

definition owner_rq :: request where
  "owner_rq = \<lparr>jwt_identity = ''g1'', jwt_claims = [], tree_from_jwt = ''A'',
               caller_permissions = PERMISSIONS_OWNER\<rparr>"

definition mail_task :: "('k, unit) task" where
  "mail_task = \<lparr>call = (\<lambda>k. Inr ()), delay = (\<lambda>k. Inr \<lparr>task_id = ''42''\<rparr>)\<rparr>"

definition alice_token :: token where
  "alice_token = \<lparr>identity = ''g1'',
                  additional_claims = [(''old_hash'', ''h:secret''),
                                       (''limited_scope'', ''reset_password'')],
                  expires_delta = 1\<rparr>"

definition dave_args :: "string option \<Rightarrow> register_args" where
  "dave_args tr = \<lparr>reg_email = ''d@example.org'', reg_full_name = ''D'',
                    reg_password = ''pw'', reg_tree = tr\<rparr>"

definition dave :: "string option \<Rightarrow> User" where
  "dave tr = \<lparr>id' = ''g9'', name = ''dave'', email = Some ''d@example.org'',
              fullname = Some ''D'', pwhash = ''h:pw'', role = - 2, tree = tr\<rparr>"

lemmas role_defs =
  ROLE_ADMIN_def ROLE_OWNER_def ROLE_EDITOR_def ROLE_CONTRIBUTOR_def ROLE_MEMBER_def
  ROLE_GUEST_def ROLE_DISABLED_def ROLE_UNCONFIRMED_def

lemma PERMISSIONS_lookup:
  "PERMISSIONS 0 = Some PERMISSIONS_GUEST"
  "PERMISSIONS 1 = Some PERMISSIONS_MEMBER"
  "PERMISSIONS 2 = Some PERMISSIONS_CONTRIBUTOR"
  "PERMISSIONS 3 = Some PERMISSIONS_EDITOR"
  "PERMISSIONS 4 = Some PERMISSIONS_OWNER"
  "PERMISSIONS 5 = Some PERMISSIONS_ADMIN"
  by (simp_all add: PERMISSIONS_def role_defs)

lemma PERMISSIONS_chain:
  "PERMISSIONS_GUEST \<subseteq> PERMISSIONS_MEMBER"
  "PERMISSIONS_MEMBER \<subseteq> PERMISSIONS_CONTRIBUTOR"
  "PERMISSIONS_CONTRIBUTOR \<subseteq> PERMISSIONS_EDITOR"
  "PERMISSIONS_EDITOR \<subseteq> PERMISSIONS_OWNER"
  "PERMISSIONS_OWNER \<subseteq> PERMISSIONS_ADMIN"
  unfolding PERMISSIONS_MEMBER_def PERMISSIONS_CONTRIBUTOR_def PERMISSIONS_EDITOR_def
    PERMISSIONS_OWNER_def PERMISSIONS_ADMIN_def
  by (rule Un_upper1)+

lemma login_role_cases:
  assumes "ROLE_GUEST \<le> r" and "r \<le> ROLE_ADMIN"
  shows "r = 0 \<or> r = 1 \<or> r = 2 \<or> r = 3 \<or> r = 4 \<or> r = 5"
  using assms unfolding role_defs by arith

text \<open>
  C1. For every pair of login-capable roles \<open>r1 \<le> r2\<close> (GUEST = 0 up to ADMIN = 5), both
  roles are keys of \<open>PERMISSIONS\<close> and the permission set of \<open>r1\<close> is a subset of the
  permission set of \<open>r2\<close>: no role loses a permission held by a lower role.
\<close>

theorem PERMISSIONS_monotone:
  assumes "ROLE_GUEST \<le> r1" and "r1 \<le> r2" and "r2 \<le> ROLE_ADMIN"
  shows "\<exists>p1 p2. PERMISSIONS r1 = Some p1 \<and> PERMISSIONS r2 = Some p2 \<and> p1 \<subseteq> p2"
proof -
  have c1: "r1 = 0 \<or> r1 = 1 \<or> r1 = 2 \<or> r1 = 3 \<or> r1 = 4 \<or> r1 = 5"
    using assms by (intro login_role_cases) auto
  have c2: "r2 = 0 \<or> r2 = 1 \<or> r2 = 2 \<or> r2 = 3 \<or> r2 = 4 \<or> r2 = 5"
    using assms by (intro login_role_cases) auto
  note ch = PERMISSIONS_chain
  from c1 c2 \<open>r1 \<le> r2\<close> show ?thesis
    by (elim disjE; simp add: PERMISSIONS_lookup; insert ch; blast)
qed

theorem PERMISSIONS_monotone_witness:
  "ROLE_GUEST \<le> ROLE_MEMBER \<and> ROLE_MEMBER \<le> ROLE_OWNER \<and> ROLE_OWNER \<le> ROLE_ADMIN \<and>
   PERMISSIONS ROLE_MEMBER = Some PERMISSIONS_MEMBER \<and>
   PERMISSIONS ROLE_OWNER = Some PERMISSIONS_OWNER \<and>
   PERMISSIONS_MEMBER \<subseteq> PERMISSIONS_OWNER"
proof -
  have h: "ROLE_GUEST \<le> ROLE_MEMBER" "ROLE_MEMBER \<le> ROLE_OWNER" "ROLE_OWNER \<le> ROLE_ADMIN"
    by (simp_all add: role_defs)
  from PERMISSIONS_monotone [OF h] h show ?thesis
    by (auto simp: PERMISSIONS_lookup role_defs)
qed

section \<open>Authentication\<close>

text \<open>
  C2. For every username whose stored record has a negative role, and for every password,
  \<open>authorized\<close> returns false, whatever \<open>verify_password\<close> says of the password and the
  stored hash; it also returns false when no record has that name.
\<close>

theorem authorized_negative_role:
  "(filter_by_name u db = [usr] \<and> role usr < 0 \<longrightarrow> authorized ev db u p = Inr False) \<and>
   (filter_by_name u db = [] \<longrightarrow> authorized ev db u p = Inr False)"
  by (simp add: authorized_def)

theorem authorized_negative_role_witness:
  "filter_by_name ''bob'' [alice, bob] = [bob] \<and> role bob < 0 \<and>
   verify_password ev0 ''pw'' (pwhash bob) \<and>
   authorized ev0 [alice, bob] ''bob'' ''pw'' = Inr False \<and>
   filter_by_name ''eve'' [alice, bob] = [] \<and>
   authorized ev0 [alice, bob] ''eve'' ''pw'' = Inr False"
  using authorized_negative_role [of "''bob''" "[alice, bob]" bob ev0 "''pw''"]
    authorized_negative_role [of "''eve''" "[alice, bob]" bob ev0 "''pw''"]
  by (simp add: filter_by_name_def alice_def bob_def ev0_def)

section \<open>Dispatching tasks\<close>

text \<open>
  C5. With no queue configured (\<open>CELERY_CONFIG\<close> falsy) \<open>run_task\<close> returns the value the
  task returns when called; with a queue configured it returns the \<open>AsyncResult\<close> of
  \<open>delay\<close>. For an \<open>AsyncResult\<close> with identifier \<open>id\<close> the task response is the payload
  \<open>{"task": {"href": "/api/tasks/{id}", "id": id}}\<close> with status 202.
\<close>

theorem run_task_dispatch:
  "(\<not> truthy cfg \<and> call t k = Inr v \<longrightarrow> run_task cfg t k = Inr (Value v)) \<and>
   (truthy cfg \<and> delay t k = Inr a \<longrightarrow> run_task cfg t k = Inr (Handle a)) \<and>
   make_task_response a =
     (PyDict [(''task'', PyDict [(''href'', PyStr (''/api/tasks/'' @ task_id a)),
                                 (''id'', PyStr (task_id a))])], 202)"
  by (simp add: run_task_def make_task_response_def)

theorem run_task_dispatch_witness:
  "\<not> truthy (Some []) \<and> call mail_task ''k'' = Inr () \<and>
   run_task (Some []) mail_task ''k'' = Inr (Value ()) \<and>
   truthy (Some [(''broker_url'', ''redis://'')]) \<and>
   delay mail_task ''k'' = Inr \<lparr>task_id = ''42''\<rparr> \<and>
   run_task (Some [(''broker_url'', ''redis://'')]) mail_task ''k'' =
     Inr (Handle \<lparr>task_id = ''42''\<rparr>) \<and>
   make_task_response \<lparr>task_id = ''42''\<rparr> =
     (PyDict [(''task'', PyDict [(''href'', PyStr ''/api/tasks/42''), (''id'', PyStr ''42'')])],
      202)"
  using run_task_dispatch [of "Some []" mail_task "''k''" "()" "\<lparr>task_id = ''42''\<rparr>"]
    run_task_dispatch [of "Some [(''broker_url'', ''redis://'')]" mail_task "''k''" "()"
      "\<lparr>task_id = ''42''\<rparr>"]
  by (simp add: truthy_def mail_task_def)

section \<open>Adding users\<close>

text \<open>
  C6. \<open>add_user\<close> with a username or an email equal to that of an existing user fails with
  a ValueError and leaves the table, hence the existing record, as it was; \<open>add_user\<close>
  with an empty name or an empty password fails with a ValueError and creates no record.
\<close>

theorem add_user_rejects:
  "((\<exists>u \<in> set db. name u = n \<or> (e \<noteq> None \<and> email u = e)) \<longrightarrow>
      (\<exists>m. add_user ev g db n p f e r t = (Inl (ValueError m), db))) \<and>
   (n = '''' \<or> p = '''' \<longrightarrow>
      (\<exists>m. add_user ev g db n p f e r t = (Inl (ValueError m), db)))"
  by (auto simp: add_user_def insert_conflict_def list_ex_iff Let_def)

theorem add_user_rejects_witness:
  "(\<exists>u \<in> set [alice]. name u = ''alice'' \<or>
        (Some ''new@example.org'' \<noteq> None \<and> email u = Some ''new@example.org'')) \<and>
   (\<exists>m. add_user ev0 ''g9'' [alice] ''alice'' ''pw'' None (Some ''new@example.org'') None None =
        (Inl (ValueError m), [alice])) \<and>
   (\<exists>m. add_user ev0 ''g9'' [alice] ''dave'' '''' None None None None =
        (Inl (ValueError m), [alice]))"
  using add_user_rejects [of "[alice]" "''alice''" "Some ''new@example.org''" ev0 "''g9''"
      "''pw''" None None None]
    add_user_rejects [of "[alice]" "''dave''" None ev0 "''g9''" "''''" None None None]
  by (simp add: alice_def)

section \<open>Filling the tree column\<close>

text \<open>
  C7. \<open>fill_tree T\<close> keeps the rows in place; a row whose tree is NULL or the empty string
  becomes the same row with tree \<open>T\<close>, and every other row is unchanged.
\<close>

theorem fill_tree_frame:
  "length (fill_tree db T) = length db \<and>
   (\<forall>i < length db.
      (tree (db ! i) = None \<or> tree (db ! i) = Some '''' \<longrightarrow>
         fill_tree db T ! i = (db ! i)\<lparr>tree := Some T\<rparr>) \<and>
      (tree (db ! i) \<noteq> None \<and> tree (db ! i) \<noteq> Some '''' \<longrightarrow>
         fill_tree db T ! i = db ! i))"
  by (auto simp: fill_tree_def coalesce_def split: option.splits)

theorem fill_tree_frame_witness:
  "length (fill_tree [alice\<lparr>tree := None\<rparr>, bob\<lparr>tree := Some ''''\<rparr>, carol] ''T'') = 3 \<and>
   tree ([alice\<lparr>tree := None\<rparr>, bob\<lparr>tree := Some ''''\<rparr>, carol] ! 0) = None \<and>
   fill_tree [alice\<lparr>tree := None\<rparr>, bob\<lparr>tree := Some ''''\<rparr>, carol] ''T'' ! 0 =
     alice\<lparr>tree := Some ''T''\<rparr> \<and>
   tree ([alice\<lparr>tree := None\<rparr>, bob\<lparr>tree := Some ''''\<rparr>, carol] ! 1) = Some '''' \<and>
   fill_tree [alice\<lparr>tree := None\<rparr>, bob\<lparr>tree := Some ''''\<rparr>, carol] ''T'' ! 1 =
     bob\<lparr>tree := Some ''T''\<rparr> \<and>
   tree ([alice\<lparr>tree := None\<rparr>, bob\<lparr>tree := Some ''''\<rparr>, carol] ! 2) = Some ''B'' \<and>
   fill_tree [alice\<lparr>tree := None\<rparr>, bob\<lparr>tree := Some ''''\<rparr>, carol] ''T'' ! 2 = carol"
  using fill_tree_frame [of "[alice\<lparr>tree := None\<rparr>, bob\<lparr>tree := Some ''''\<rparr>, carol]" "''T''"]
  by (simp add: alice_def bob_def carol_def)

section \<open>Lookups in a table that satisfies its constraints\<close>

lemma filter_unique_key:
  "distinct (map f xs) \<Longrightarrow> x \<in> set xs \<Longrightarrow> filter (\<lambda>u. f u = f x) xs = [x]"
proof (induction xs)
  case Nil
  then show ?case by simp
next
  case (Cons a xs)
  show ?case
  proof (cases "x = a")
    case True
    from Cons.prems have "\<forall>u \<in> set xs. f u \<noteq> f a" by (force simp: image_iff)
    then have "filter (\<lambda>u. f u = f a) xs = []" by (simp add: filter_empty_conv)
    with True show ?thesis by simp
  next
    case False
    with Cons.prems have "x \<in> set xs" and "f a \<noteq> f x" by auto
    with Cons show ?thesis by simp
  qed
qed

lemma table_ok_by_name:
  "table_ok db \<Longrightarrow> usr \<in> set db \<Longrightarrow> filter_by_name (name usr) db = [usr]"
  unfolding table_ok_def filter_by_name_def by (simp add: filter_unique_key)

lemma table_ok_by_id:
  "table_ok db \<Longrightarrow> usr \<in> set db \<Longrightarrow> filter_by_id (id' usr) db = [usr]"
  unfolding table_ok_def filter_by_id_def by (simp add: filter_unique_key)

lemma table_ok_same_name:
  assumes "table_ok db" "usr \<in> set db" "u \<in> set db" "name u = name usr"
  shows "u = usr"
proof -
  from assms(1,2) have "filter_by_name (name usr) db = [usr]" by (rule table_ok_by_name)
  moreover from assms(3,4) have "u \<in> set (filter_by_name (name usr) db)"
    by (simp add: filter_by_name_def)
  ultimately show ?thesis by simp
qed

lemma table_ok_same_email:
  assumes "table_ok db" "usr \<in> set db" "u \<in> set db" "email u = email usr" "email usr \<noteq> None"
  shows "u = usr"
proof -
  from assms(1) have "distinct (map email (filter (\<lambda>v. email v \<noteq> None) db))"
    by (simp add: table_ok_def filter_map comp_def)
  then have "inj_on email (set (filter (\<lambda>v. email v \<noteq> None) db))"
    by (simp add: distinct_map)
  moreover from assms have "u \<in> set (filter (\<lambda>v. email v \<noteq> None) db)"
    and "usr \<in> set (filter (\<lambda>v. email v \<noteq> None) db)" by simp_all
  ultimately show ?thesis using assms(4) by (meson inj_onD)
qed

lemma table_ok_no_update_conflict:
  assumes "table_ok db" "usr \<in> set db"
    and "id' v = id' usr" "name v = name usr" "email v = email usr"
  shows "\<not> update_conflict v db"
proof
  assume "update_conflict v db"
  then obtain u where u: "u \<in> set db" "id' u \<noteq> id' usr"
    and c: "name u = name usr \<or> (email usr \<noteq> None \<and> email u = email usr)"
    using assms(3-5) by (auto simp: update_conflict_def list_ex_iff)
  from c have "u = usr"
    using table_ok_same_name [OF assms(1,2) u(1)] table_ok_same_email [OF assms(1,2) u(1)]
    by blast
  with u(2) show False by simp
qed

lemma modify_user_password:
  assumes "table_ok db" "usr \<in> set db"
  shows "modify_user ev db (name usr) None (Some p) None None None None =
           (Inr (), map (\<lambda>u. if id' u = id' usr then usr\<lparr>pwhash := hash_password ev p\<rparr> else u) db)"
proof -
  have "\<not> update_conflict (usr\<lparr>pwhash := hash_password ev p\<rparr>) db"
    using assms by (intro table_ok_no_update_conflict [where usr = usr]) simp_all
  then show ?thesis
    by (simp add: modify_user_def table_ok_by_name [OF assms])
qed

section \<open>Viewing a user\<close>

lemma get_guid_unique:
  "filter_by_name n db = [usr] \<Longrightarrow> get_guid db n = Inr (id' usr)"
  by (simp add: get_guid_def)

lemma get_user_details_unique:
  "filter_by_name n db = [usr] \<Longrightarrow> get_user_details db n = Inr (Some (get_user_detail usr))"
  by (simp add: get_user_details_def)

lemma get_tree_check_other_tree:
  assumes "n \<noteq> ''_''" "\<not> has_permissions rq [PERM_VIEW_OTHER_TREE_USER]"
    and "filter_by_name n db = [usr]" "get_tree_id ev db (id' usr) = Inr t" "t \<noteq> tree_from_jwt rq"
  shows "get_tree_check ev rq db n = Inl (HTTPException 403)"
  using assms by (auto simp: get_tree_check_def get_guid_unique)

text \<open>
  C9. \<open>UserResource.get\<close> compares the trees only when the resolved name differs from
  \<open>"_"\<close>. For any other name, requested directly or resolved from \<open>"-"\<close>, a caller without
  the cross-tree view permission is aborted with 403 when the tree of the target differs
  from the caller's. For a target named \<open>"_"\<close> the comparison is skipped: a caller with
  the same-tree view permission receives the details, whatever the tree of the target.
\<close>

theorem UserResource_get_underscore:
  "(user_name \<noteq> ''-'' \<and> user_name \<noteq> ''_'' \<and>
    \<not> has_permissions rq [PERM_VIEW_OTHER_TREE_USER] \<and>
    filter_by_name user_name db = [usr] \<and>
    get_tree_id ev db (id' usr) = Inr t \<and> t \<noteq> tree_from_jwt rq \<longrightarrow>
      UserResource_get ev rq db user_name = Inl (HTTPException 403)) \<and>
   (get_name ev db (jwt_identity rq) = Inr n \<and> n \<noteq> ''_'' \<and>
    \<not> has_permissions rq [PERM_VIEW_OTHER_TREE_USER] \<and>
    filter_by_name n db = [usr] \<and>
    get_tree_id ev db (id' usr) = Inr t \<and> t \<noteq> tree_from_jwt rq \<longrightarrow>
      UserResource_get ev rq db ''-'' = Inl (HTTPException 403)) \<and>
   (has_permissions rq [PERM_VIEW_OTHER_USER] \<and> filter_by_name ''_'' db = [usr] \<longrightarrow>
      UserResource_get ev rq db ''_'' = Inr (PyDict (get_user_detail usr), 200))"
proof (intro conjI impI)
  assume a: "user_name \<noteq> ''-'' \<and> user_name \<noteq> ''_'' \<and>
    \<not> has_permissions rq [PERM_VIEW_OTHER_TREE_USER] \<and>
    filter_by_name user_name db = [usr] \<and>
    get_tree_id ev db (id' usr) = Inr t \<and> t \<noteq> tree_from_jwt rq"
  then have chk: "get_tree_check ev rq db user_name = Inl (HTTPException 403)"
    by (intro get_tree_check_other_tree) auto
  show "UserResource_get ev rq db user_name = Inl (HTTPException 403)"
  proof (cases "has_permissions rq [PERM_VIEW_OTHER_USER]")
    case True
    with a chk show ?thesis
      by (simp add: UserResource_get_def get_resolve_def require_permissions_def)
  next
    case False
    with a show ?thesis
      by (simp add: UserResource_get_def get_resolve_def require_permissions_def)
  qed
next
  assume a: "get_name ev db (jwt_identity rq) = Inr n \<and> n \<noteq> ''_'' \<and>
    \<not> has_permissions rq [PERM_VIEW_OTHER_TREE_USER] \<and>
    filter_by_name n db = [usr] \<and>
    get_tree_id ev db (id' usr) = Inr t \<and> t \<noteq> tree_from_jwt rq"
  then have chk: "get_tree_check ev rq db n = Inl (HTTPException 403)"
    by (intro get_tree_check_other_tree) auto
  with a show "UserResource_get ev rq db ''-'' = Inl (HTTPException 403)"
    by (simp add: UserResource_get_def get_resolve_def)
next
  assume a: "has_permissions rq [PERM_VIEW_OTHER_USER] \<and> filter_by_name ''_'' db = [usr]"
  then show "UserResource_get ev rq db ''_'' = Inr (PyDict (get_user_detail usr), 200)"
    by (simp add: UserResource_get_def get_resolve_def require_permissions_def
        get_tree_check_def get_user_details_unique)
qed

lemma owner_rq_permissions:
  "has_permissions owner_rq [PERM_VIEW_OTHER_USER]"
  "\<not> has_permissions owner_rq [PERM_VIEW_OTHER_TREE_USER]"
  "has_permissions owner_rq [PERM_EDIT_OWN_USER]"
  by (simp_all add: has_permissions_def owner_rq_def PERMISSIONS_OWNER_def
      PERMISSIONS_EDITOR_def PERMISSIONS_CONTRIBUTOR_def PERMISSIONS_MEMBER_def
      PERMISSIONS_GUEST_def PERM_ADD_USER_def PERM_EDIT_OWN_USER_def
      PERM_EDIT_OTHER_USER_def PERM_EDIT_USER_ROLE_def PERM_VIEW_OTHER_USER_def
      PERM_DEL_USER_def PERM_VIEW_PRIVATE_def PERM_EDIT_OBJ_def PERM_ADD_OBJ_def
      PERM_DEL_OBJ_def PERM_IMPORT_FILE_def PERM_TRIGGER_REINDEX_def
      PERM_EDIT_NAME_GROUP_def PERM_VIEW_OTHER_TREE_USER_def)

theorem UserResource_get_underscore_witness:
  "\<not> has_permissions owner_rq [PERM_VIEW_OTHER_TREE_USER] \<and>
   has_permissions owner_rq [PERM_VIEW_OTHER_USER] \<and>
   tree_from_jwt owner_rq = ''A'' \<and>
   filter_by_name ''carol'' [alice, underscore, carol] = [carol] \<and>
   get_tree_id ev0 [alice, underscore, carol] (id' carol) = Inr ''B'' \<and>
   UserResource_get ev0 owner_rq [alice, underscore, carol] ''carol'' = Inl (HTTPException 403) \<and>
   get_name ev0 [alice, underscore, carol] (jwt_identity (owner_rq\<lparr>jwt_identity := ''g4''\<rparr>)) =
     Inr ''carol'' \<and>
   UserResource_get ev0 (owner_rq\<lparr>jwt_identity := ''g4''\<rparr>) [alice, underscore, carol] ''-'' =
     Inl (HTTPException 403) \<and>
   filter_by_name ''_'' [alice, underscore, carol] = [underscore] \<and>
   get_tree_id ev0 [alice, underscore, carol] (id' underscore) = Inr ''B'' \<and>
   UserResource_get ev0 owner_rq [alice, underscore, carol] ''_'' =
     Inr (PyDict [(''name'', PyStr ''_''), (''email'', PyNone), (''full_name'', PyNone),
                  (''role'', PyInt 1), (''tree'', PyStr ''B'')], 200)"
proof -
  let ?db = "[alice, underscore, carol]"
  have f1: "filter_by_name ''carol'' ?db = [carol]"
    by (simp add: filter_by_name_def alice_def underscore_def carol_def)
  have f2: "filter_by_name ''_'' ?db = [underscore]"
    by (simp add: filter_by_name_def alice_def underscore_def carol_def)
  have t1: "get_tree_id ev0 ?db (id' carol) = Inr ''B''"
    by (simp add: ev0_def filter_by_id_def alice_def underscore_def carol_def)
  have t2: "get_tree_id ev0 ?db (id' underscore) = Inr ''B''"
    by (simp add: ev0_def filter_by_id_def alice_def underscore_def carol_def)
  have n1: "get_name ev0 ?db (jwt_identity (owner_rq\<lparr>jwt_identity := ''g4''\<rparr>)) = Inr ''carol''"
    by (simp add: get_name_def ev0_def filter_by_id_def alice_def underscore_def carol_def)
  have p: "\<not> has_permissions (owner_rq\<lparr>jwt_identity := ''g4''\<rparr>) [PERM_VIEW_OTHER_TREE_USER]"
    using owner_rq_permissions(2) by (simp add: has_permissions_def)
  have tr: "tree_from_jwt owner_rq = ''A''" by (simp add: owner_rq_def)
  have d: "get_user_detail underscore =
      [(''name'', PyStr ''_''), (''email'', PyNone), (''full_name'', PyNone),
       (''role'', PyInt 1), (''tree'', PyStr ''B'')]"
    by (simp add: get_user_detail_def underscore_def opt_str_def)
  have a: "UserResource_get ev0 owner_rq ?db ''carol'' = Inl (HTTPException 403)"
    using UserResource_get_underscore [of "''carol''" owner_rq ?db carol ev0 "''B''" "''carol''"]
      f1 t1 tr owner_rq_permissions by simp
  have b: "UserResource_get ev0 (owner_rq\<lparr>jwt_identity := ''g4''\<rparr>) ?db ''-'' = Inl (HTTPException 403)"
    using UserResource_get_underscore [of "''carol''" "owner_rq\<lparr>jwt_identity := ''g4''\<rparr>" ?db
        carol ev0 "''B''" "''carol''"] f1 t1 tr n1 p by simp
  have c: "UserResource_get ev0 owner_rq ?db ''_'' = Inr (PyDict (get_user_detail underscore), 200)"
    using UserResource_get_underscore [of "''_''" owner_rq ?db underscore ev0 "''B''" "''_''"]
      f2 owner_rq_permissions by simp
  from a b c d f1 f2 t1 t2 n1 tr owner_rq_permissions show ?thesis by simp
qed

section \<open>Editing a user\<close>

lemma modify_user_no_abort:
  "fst (modify_user ev db n nn p f e r t) \<noteq> Inl (HTTPException c)"
  by (cases "filter_by_name n db" rule: one'.cases)
     (simp_all add: modify_user_def Let_def)

lemma authorized_no_abort:
  "authorized ev db n p \<noteq> Inl (HTTPException c)"
  by (cases "filter_by_name n db" rule: scalar.cases)
     (simp_all add: authorized_def)

lemma get_name_no_abort:
  "get_name ev db g \<noteq> Inl (HTTPException c)"
  by (cases "map name (filter_by_id g db)" rule: scalar.cases)
     (simp_all add: get_name_def)

lemma prepare_edit_400:
  assumes "prepare_edit ev rq db user_name = Inl (HTTPException 400)"
  shows "\<exists>g. get_tree_id ev db g = Inl (HTTPException 400)"
proof (cases "user_name = ''-''")
  case True
  with assms show ?thesis
    using get_name_no_abort [of ev db "jwt_identity rq" 400]
    by (auto simp: prepare_edit_def require_permissions_def
        split: if_splits sum.splits exc.splits)
next
  case False
  with assms show ?thesis
    by (auto simp: prepare_edit_def require_permissions_def
        split: if_splits sum.splits)
qed

text \<open>
  C10. \<open>POST /users/{name}/password/change\<close> never returns 400 of its own: its guard
  compares an integer with a string and is false for every input, so a 400 can only be
  one that \<open>get_tree_id\<close> raises inside \<open>prepare_edit\<close>. A request with the correct old
  password and the new password \<open>""\<close> succeeds with 201 and stores the hash of the empty
  string, although \<open>add_user\<close> refuses an empty password with a ValueError.
\<close>

theorem change_password_accepts_empty:
  "((\<forall>g. get_tree_id ev db g \<noteq> Inl (HTTPException 400)) \<longrightarrow>
      fst (UserChangePasswordResource_post ev rq db args user_name) \<noteq> Inl (HTTPException 400)) \<and>
   (prepare_edit ev rq db user_name = Inr (name usr, b) \<and> table_ok db \<and> usr \<in> set db \<and>
    0 \<le> role usr \<and> verify_password ev (old_password args) (pwhash usr) \<and>
    new_password args = '''' \<longrightarrow>
      UserChangePasswordResource_post ev rq db args user_name =
        (Inr (PyStr '''', 201),
         map (\<lambda>u. if id' u = id' usr then usr\<lparr>pwhash := hash_password ev ''''\<rparr> else u) db)) \<and>
   (\<exists>m. add_user ev g0 db n0 '''' f0 e0 r0 t0 = (Inl (ValueError m), db))"
proof (intro conjI impI)
  show "\<exists>m. add_user ev g0 db n0 '''' f0 e0 r0 t0 = (Inl (ValueError m), db)"
    by (simp add: add_user_def)
next
  assume ext: "\<forall>g. get_tree_id ev db g \<noteq> Inl (HTTPException 400)"
  show "fst (UserChangePasswordResource_post ev rq db args user_name) \<noteq> Inl (HTTPException 400)"
  proof (cases "prepare_edit ev rq db user_name")
    case (Inl e)
    with ext prepare_edit_400 [of ev rq db user_name] have "e \<noteq> HTTPException 400" by auto
    with Inl show ?thesis by (simp add: UserChangePasswordResource_post_def)
  next
    case (Inr r)
    obtain n b where r: "r = (n, b)" by (cases r)
    show ?thesis
      using Inr r authorized_no_abort [of ev db n "old_password args" 400]
        modify_user_no_abort [of ev db n None "Some (new_password args)" None None None None 400]
      by (auto simp: UserChangePasswordResource_post_def split: sum.splits prod.splits)
  qed
next
  assume a: "prepare_edit ev rq db user_name = Inr (name usr, b) \<and> table_ok db \<and> usr \<in> set db \<and>
    0 \<le> role usr \<and> verify_password ev (old_password args) (pwhash usr) \<and>
    new_password args = ''''"
  then have au: "authorized ev db (name usr) (old_password args) = Inr True"
    by (simp add: authorized_def table_ok_by_name)
  from a have "modify_user ev db (name usr) None (Some '''') None None None None =
      (Inr (), map (\<lambda>u. if id' u = id' usr then usr\<lparr>pwhash := hash_password ev ''''\<rparr> else u) db)"
    by (intro modify_user_password) auto
  with a au show "UserChangePasswordResource_post ev rq db args user_name =
        (Inr (PyStr '''', 201),
         map (\<lambda>u. if id' u = id' usr then usr\<lparr>pwhash := hash_password ev ''''\<rparr> else u) db)"
    by (simp add: UserChangePasswordResource_post_def)
qed

theorem change_password_accepts_empty_witness:
  "(\<forall>g. get_tree_id ev0 [alice] g \<noteq> Inl (HTTPException 400)) \<and>
   prepare_edit ev0 owner_rq [alice] ''-'' = Inr (name alice, False) \<and>
   table_ok [alice] \<and> alice \<in> set [alice] \<and> 0 \<le> role alice \<and>
   verify_password ev0 ''secret'' (pwhash alice) \<and>
   UserChangePasswordResource_post ev0 owner_rq [alice]
       \<lparr>old_password = ''secret'', new_password = ''''\<rparr> ''-'' =
     (Inr (PyStr '''', 201), [alice\<lparr>pwhash := ''h:''\<rparr>]) \<and>
   fst (UserChangePasswordResource_post ev0 owner_rq [alice]
       \<lparr>old_password = ''secret'', new_password = ''''\<rparr> ''-'') \<noteq> Inl (HTTPException 400) \<and>
   (\<exists>m. add_user ev0 ''g9'' [alice] ''dave'' '''' None None None None =
        (Inl (ValueError m), [alice]))"
proof -
  have g: "\<forall>g. get_tree_id ev0 [alice] g \<noteq> Inl (HTTPException 400)"
    by (simp add: ev0_def filter_by_id_def alice_def)
  have pe: "prepare_edit ev0 owner_rq [alice] ''-'' = Inr (name alice, False)"
    using owner_rq_permissions(3)
    by (simp add: prepare_edit_def require_permissions_def get_name_def ev0_def
        filter_by_id_def owner_rq_def alice_def)
  have ok: "table_ok [alice]" by (simp add: table_ok_def)
  have v: "verify_password ev0 ''secret'' (pwhash alice)" "0 \<le> role alice"
    by (simp_all add: ev0_def alice_def)
  have h: "hash_password ev0 '''' = ''h:''" by (simp add: ev0_def)
  from change_password_accepts_empty [of ev0 "[alice]" owner_rq
      "\<lparr>old_password = ''secret'', new_password = ''''\<rparr>" "''-''" alice False
      "''g9''" "''dave''" None None None None]
    g pe ok v h
  show ?thesis by simp
qed

text \<open>
  C8 (what the code does). A \<open>PUT /users/{name}\<close> or a
  \<open>POST /users/{name}/password/change\<close> for a name that no user has does not answer 404:
  the ValueError of \<open>get_guid\<close> meets \<open>except ValueError():\<close> and leaves \<open>prepare_edit\<close>
  as a TypeError, which the endpoint does not handle. No record is modified.
\<close>

theorem edit_unknown_user_type_error:
  "UserResource_put ev rq [alice] args ''nobody'' =
     (Inl (TypeError ''catching classes that do not inherit from BaseException is not allowed''),
      [alice]) \<and>
   UserChangePasswordResource_post ev rq [alice] cargs ''nobody'' =
     (Inl (TypeError ''catching classes that do not inherit from BaseException is not allowed''),
      [alice])"
  by (simp add: UserResource_put_def UserChangePasswordResource_post_def prepare_edit_def
      get_guid_def filter_by_name_def alice_def)

section \<open>Self-registration\<close>

lemma get_number_users_tenant:
  "get_number_users db (Some tr) (Some [ROLE_OWNER]) = owners_in_tenant db (Some tr)"
  by (simp add: get_number_users_def owners_in_tenant_def)

lemma get_number_users_anywhere:
  "get_number_users db None (Some [ROLE_OWNER]) = owners_anywhere db"
  by (simp add: get_number_users_def owners_anywhere_def)

text \<open>
  C4 as stated fails twice. For the name \<open>"-"\<close>, with no owner in the table, the endpoint
  answers 404, not 405: the name is refused before the owners are counted. And for a
  request that names no tree, with \<open>alice\<close> the owner of tree \<open>A\<close> and so no owner in
  the (absent) target tenant, the registration is not refused: \<open>get_number_users\<close> leaves
  the tree filter out when the tree is \<open>None\<close> and counts the owners of every tree, so the
  user is created and the answer is 201.
\<close>

theorem register_owner_count_counterexample:
  "owners_in_tenant [] (reg_tree (dave_args None)) = 0 \<and>
   UserRegisterResource_post ev0 None mail_task ''g9'' [] (dave_args None) ''-'' =
     (Inl (HTTPException 404), []) \<and>
   UserRegisterResource_post ev0 None mail_task ''g9'' [] (dave_args None) ''-'' \<noteq>
     (Inl (HTTPException 405), []) \<and>
   owners_in_tenant [alice] (reg_tree (dave_args None)) = 0 \<and>
   UserRegisterResource_post ev0 None mail_task ''g9'' [alice] (dave_args None) ''dave'' =
     (Inr (PyStr '''', 201), [alice, dave None]) \<and>
   UserRegisterResource_post ev0 None mail_task ''g9'' [alice] (dave_args None) ''dave'' \<noteq>
     (Inl (HTTPException 405), [alice])"
  by (simp add: UserRegisterResource_post_def get_number_users_def owners_in_tenant_def
      add_user_def insert_conflict_def get_guid_def filter_by_name_def run_task_def
      truthy_def mail_task_def dave_args_def dave_def alice_def ev0_def
      ROLE_OWNER_def ROLE_UNCONFIRMED_def Let_def)

lemma add_user_fresh:
  assumes "n \<noteq> ''''" "p \<noteq> ''''"
    and "\<forall>u \<in> set db. id' u \<noteq> g \<and> name u \<noteq> n \<and> email u \<noteq> Some e"
  shows "add_user ev g db n p f (Some e) (Some r) t =
           (Inr (), db @ [\<lparr>id' = g, name = n, email = Some e, fullname = f,
                           pwhash = hash_password ev p, role = r, tree = t\<rparr>])"
  using assms by (auto simp: add_user_def insert_conflict_def list_ex_iff Let_def)

lemma get_guid_appended:
  assumes "\<forall>u \<in> set db. name u \<noteq> name new"
  shows "get_guid (db @ [new]) (name new) = Inr (id' new)"
proof -
  from assms have "filter (\<lambda>u. name u = name new) db = []"
    by (simp add: filter_empty_conv)
  then show ?thesis by (simp add: get_guid_def filter_by_name_def)
qed

lemma register_refused:
  assumes "user_name \<noteq> ''-''" "get_number_users db (reg_tree args) (Some [ROLE_OWNER]) = 0"
  shows "UserRegisterResource_post ev cfg t uuid4 db args user_name =
           (Inl (HTTPException 405), db)"
  using assms by (simp add: UserRegisterResource_post_def)

lemma register_created:
  assumes "user_name \<noteq> ''-''" "user_name \<noteq> ''''" "reg_password args \<noteq> ''''"
    and "0 < get_number_users db (reg_tree args) (Some [ROLE_OWNER])"
    and "\<forall>u \<in> set db. id' u \<noteq> uuid4 \<and> name u \<noteq> user_name \<and> email u \<noteq> Some (reg_email args)"
  shows "UserRegisterResource_post ev cfg t uuid4 db args user_name =
           ((case run_task cfg t (reg_email args,
                   create_access_token uuid4
                     [(''email'', reg_email args), (CLAIM_LIMITED_SCOPE, SCOPE_CONF_EMAIL)] 1) of
               Inl e \<Rightarrow> Inl e
             | Inr v \<Rightarrow> Inr (PyStr '''', 201)),
            db @ [\<lparr>id' = uuid4, name = user_name, email = Some (reg_email args),
                    fullname = Some (reg_full_name args),
                    pwhash = hash_password ev (reg_password args),
                    role = ROLE_UNCONFIRMED, tree = reg_tree args\<rparr>])"
proof -
  let ?new = "\<lparr>id' = uuid4, name = user_name, email = Some (reg_email args),
                fullname = Some (reg_full_name args),
                pwhash = hash_password ev (reg_password args),
                role = ROLE_UNCONFIRMED, tree = reg_tree args\<rparr>"
  have add: "add_user ev uuid4 db user_name (reg_password args) (Some (reg_full_name args))
      (Some (reg_email args)) (Some ROLE_UNCONFIRMED) (reg_tree args) = (Inr (), db @ [?new])"
    using assms by (intro add_user_fresh) auto
  have guid: "get_guid (db @ [?new]) user_name = Inr uuid4"
    using assms(5) get_guid_appended [of db ?new] by simp
  from assms(1,4) add guid show ?thesis
    by (simp add: UserRegisterResource_post_def Let_def split: sum.splits)
qed

text \<open>
  C4, amended. For a name other than \<open>"-"\<close>, the registration fails with 405 and leaves the
  table as it was whenever no user has the owner role in the tree that the request names
  or, for a request that names no tree, no user has the owner role in any tree. Once
  such an owner exists, a registration with a fresh non-empty name other than \<open>"-"\<close>, a
  fresh email, a non-empty password and a fresh identifier appends a user with the role
  \<open>ROLE_UNCONFIRMED\<close> in the tree of the request; the answer is 201 unless the
  confirmation task raises.
\<close>

theorem register_needs_owner:
  "(user_name \<noteq> ''-'' \<and> reg_tree args = Some tr \<and> owners_in_tenant db (Some tr) = 0 \<longrightarrow>
      UserRegisterResource_post ev cfg t uuid4 db args user_name =
        (Inl (HTTPException 405), db)) \<and>
   (user_name \<noteq> ''-'' \<and> reg_tree args = None \<and> owners_anywhere db = 0 \<longrightarrow>
      UserRegisterResource_post ev cfg t uuid4 db args user_name =
        (Inl (HTTPException 405), db)) \<and>
   (user_name \<noteq> ''-'' \<and> user_name \<noteq> '''' \<and> reg_password args \<noteq> '''' \<and>
    (reg_tree args = Some tr \<and> 0 < owners_in_tenant db (Some tr) \<or>
     reg_tree args = None \<and> 0 < owners_anywhere db) \<and>
    (\<forall>u \<in> set db. id' u \<noteq> uuid4 \<and> name u \<noteq> user_name \<and> email u \<noteq> Some (reg_email args)) \<longrightarrow>
      snd (UserRegisterResource_post ev cfg t uuid4 db args user_name) =
        db @ [\<lparr>id' = uuid4, name = user_name, email = Some (reg_email args),
                fullname = Some (reg_full_name args),
                pwhash = hash_password ev (reg_password args),
                role = ROLE_UNCONFIRMED, tree = reg_tree args\<rparr>] \<and>
      fst (UserRegisterResource_post ev cfg t uuid4 db args user_name) =
        (case run_task cfg t (reg_email args,
                create_access_token uuid4
                  [(''email'', reg_email args), (CLAIM_LIMITED_SCOPE, SCOPE_CONF_EMAIL)] 1) of
           Inl e \<Rightarrow> Inl e
         | Inr v \<Rightarrow> Inr (PyStr '''', 201)))"
proof (intro conjI impI)
  assume "user_name \<noteq> ''-'' \<and> reg_tree args = Some tr \<and> owners_in_tenant db (Some tr) = 0"
  then show "UserRegisterResource_post ev cfg t uuid4 db args user_name =
      (Inl (HTTPException 405), db)"
    by (intro register_refused) (simp_all add: get_number_users_tenant)
next
  assume "user_name \<noteq> ''-'' \<and> reg_tree args = None \<and> owners_anywhere db = 0"
  then show "UserRegisterResource_post ev cfg t uuid4 db args user_name =
      (Inl (HTTPException 405), db)"
    by (intro register_refused) (simp_all add: get_number_users_anywhere)
next
  assume a: "user_name \<noteq> ''-'' \<and> user_name \<noteq> '''' \<and> reg_password args \<noteq> '''' \<and>
    (reg_tree args = Some tr \<and> 0 < owners_in_tenant db (Some tr) \<or>
     reg_tree args = None \<and> 0 < owners_anywhere db) \<and>
    (\<forall>u \<in> set db. id' u \<noteq> uuid4 \<and> name u \<noteq> user_name \<and> email u \<noteq> Some (reg_email args))"
  then have c: "0 < get_number_users db (reg_tree args) (Some [ROLE_OWNER])"
    by (auto simp: get_number_users_tenant get_number_users_anywhere)
  from a have post: "UserRegisterResource_post ev cfg t uuid4 db args user_name =
           ((case run_task cfg t (reg_email args,
                   create_access_token uuid4
                     [(''email'', reg_email args), (CLAIM_LIMITED_SCOPE, SCOPE_CONF_EMAIL)] 1) of
               Inl e \<Rightarrow> Inl e
             | Inr v \<Rightarrow> Inr (PyStr '''', 201)),
            db @ [\<lparr>id' = uuid4, name = user_name, email = Some (reg_email args),
                    fullname = Some (reg_full_name args),
                    pwhash = hash_password ev (reg_password args),
                    role = ROLE_UNCONFIRMED, tree = reg_tree args\<rparr>])"
    by (intro register_created c) auto
  show "snd (UserRegisterResource_post ev cfg t uuid4 db args user_name) =
        db @ [\<lparr>id' = uuid4, name = user_name, email = Some (reg_email args),
                fullname = Some (reg_full_name args),
                pwhash = hash_password ev (reg_password args),
                role = ROLE_UNCONFIRMED, tree = reg_tree args\<rparr>]"
    by (simp add: post)
  show "fst (UserRegisterResource_post ev cfg t uuid4 db args user_name) =
        (case run_task cfg t (reg_email args,
                create_access_token uuid4
                  [(''email'', reg_email args), (CLAIM_LIMITED_SCOPE, SCOPE_CONF_EMAIL)] 1) of
           Inl e \<Rightarrow> Inl e
         | Inr v \<Rightarrow> Inr (PyStr '''', 201))"
    by (simp add: post)
qed

theorem register_needs_owner_witness:
  "owners_in_tenant [alice] (Some ''B'') = 0 \<and> 0 < owners_anywhere [alice] \<and>
   UserRegisterResource_post ev0 None mail_task ''g9'' [alice] (dave_args (Some ''B'')) ''dave'' =
     (Inl (HTTPException 405), [alice]) \<and>
   owners_anywhere [bob] = 0 \<and>
   UserRegisterResource_post ev0 None mail_task ''g9'' [bob] (dave_args None) ''dave'' =
     (Inl (HTTPException 405), [bob]) \<and>
   0 < owners_in_tenant [alice] (Some ''A'') \<and>
   UserRegisterResource_post ev0 None mail_task ''g9'' [alice] (dave_args (Some ''A'')) ''dave'' =
     (Inr (PyStr '''', 201), [alice, dave (Some ''A'')]) \<and>
   role (dave (Some ''A'')) = ROLE_UNCONFIRMED \<and>
   UserRegisterResource_post ev0 None mail_task ''g9'' [alice] (dave_args None) ''dave'' =
     (Inr (PyStr '''', 201), [alice, dave None])"
proof -
  have cB: "owners_in_tenant [alice] (Some ''B'') = 0"
    and cA: "0 < owners_in_tenant [alice] (Some ''A'')"
    and ca: "0 < owners_anywhere [alice]"
    and cb: "owners_anywhere [bob] = 0"
    by (simp_all add: owners_in_tenant_def owners_anywhere_def alice_def bob_def ROLE_OWNER_def)
  have fr: "\<forall>u \<in> set [alice]. id' u \<noteq> ''g9'' \<and> name u \<noteq> ''dave'' \<and>
      email u \<noteq> Some ''d@example.org''"
    by (simp add: alice_def)
  have rt: "run_task None mail_task (''d@example.org'',
      create_access_token ''g9''
        [(''email'', ''d@example.org''), (CLAIM_LIMITED_SCOPE, SCOPE_CONF_EMAIL)] 1) =
      Inr (Value ())"
    by (simp add: run_task_def truthy_def mail_task_def)
  have h: "hash_password ev0 ''pw'' = ''h:pw''" by (simp add: ev0_def)
  have r: "role (dave (Some ''A'')) = ROLE_UNCONFIRMED"
    by (simp add: dave_def ROLE_UNCONFIRMED_def)
  have w1: "UserRegisterResource_post ev0 None mail_task ''g9'' [alice] (dave_args (Some ''B''))
      ''dave'' = (Inl (HTTPException 405), [alice])"
    using register_needs_owner [of "''dave''" "dave_args (Some ''B'')" "''B''" "[alice]"
        ev0 None mail_task "''g9''"] cB
    by (simp add: dave_args_def)
  have w2: "UserRegisterResource_post ev0 None mail_task ''g9'' [bob] (dave_args None)
      ''dave'' = (Inl (HTTPException 405), [bob])"
    using register_needs_owner [of "''dave''" "dave_args None" "''B''" "[bob]"
        ev0 None mail_task "''g9''"] cb
    by (simp add: dave_args_def)
  have w3: "UserRegisterResource_post ev0 None mail_task ''g9'' [alice] (dave_args (Some ''A''))
      ''dave'' = (Inr (PyStr '''', 201), [alice, dave (Some ''A'')])"
    using register_needs_owner [of "''dave''" "dave_args (Some ''A'')" "''A''" "[alice]"
        ev0 None mail_task "''g9''"] cA fr rt h
    by (simp add: dave_args_def dave_def ROLE_UNCONFIRMED_def prod_eq_iff)
  have w4: "UserRegisterResource_post ev0 None mail_task ''g9'' [alice] (dave_args None)
      ''dave'' = (Inr (PyStr '''', 201), [alice, dave None])"
    using register_needs_owner [of "''dave''" "dave_args None" "''A''" "[alice]"
        ev0 None mail_task "''g9''"] ca fr rt h
    by (simp add: dave_args_def dave_def ROLE_UNCONFIRMED_def prod_eq_iff)
  from cB ca cb cA r w1 w2 w3 w4 show ?thesis by simp
qed

section \<open>Resetting a password\<close>

lemma trigger_token:
  assumes "UserTriggerResetPasswordResource_post cfg t db user_name = (r, Some tok)"
  shows "\<exists>g h. get_guid db user_name = Inr g \<and> get_pwhash db user_name = Inr h \<and>
           tok = create_access_token g [(''old_hash'', h), (CLAIM_LIMITED_SCOPE, SCOPE_RESET_PW)] 1"
proof (cases "get_guid db user_name")
  case (Inl e)
  with assms show ?thesis
    by (auto simp: UserTriggerResetPasswordResource_post_def
        split: if_splits sum.splits option.splits)
next
  case g: (Inr g)
  show ?thesis
  proof (cases "get_pwhash db user_name")
    case (Inl e)
    with assms g show ?thesis
      by (auto simp: UserTriggerResetPasswordResource_post_def
          split: if_splits sum.splits option.splits)
  next
    case (Inr h)
    with assms g show ?thesis
      by (auto simp: UserTriggerResetPasswordResource_post_def Let_def
          split: if_splits sum.splits option.splits exc.splits task_return.splits)
  qed
qed

lemma get_name_unique:
  "table_ok db \<Longrightarrow> usr \<in> set db \<Longrightarrow> guid_ok ev (id' usr) \<Longrightarrow>
   get_name ev db (id' usr) = Inr (name usr)"
  by (simp add: get_name_def table_ok_by_id)

lemma get_pwhash_unique:
  "table_ok db \<Longrightarrow> usr \<in> set db \<Longrightarrow> get_pwhash db (name usr) = Inr (pwhash usr)"
  by (simp add: get_pwhash_def table_ok_by_name)

lemma reset_with_claims:
  assumes "table_ok db" "usr \<in> set db" "guid_ok ev (id' usr)" "np \<noteq> ''''"
    and "jwt_identity rq = id' usr"
    and "jwt_claims rq = [(''old_hash'', h), (CLAIM_LIMITED_SCOPE, SCOPE_RESET_PW)]"
  shows "UserResetPasswordResource_post ev rq db np =
           (if h \<noteq> pwhash usr then (Inl (HTTPException 409), db)
            else (Inr (PyStr '''', 201),
                  map (\<lambda>u. if id' u = id' usr then usr\<lparr>pwhash := hash_password ev np\<rparr> else u) db))"
proof -
  have s: "getitem (jwt_claims rq) CLAIM_LIMITED_SCOPE = Inr SCOPE_RESET_PW"
    and o: "getitem (jwt_claims rq) ''old_hash'' = Inr h"
    using assms(6) by (simp_all add: getitem_def CLAIM_LIMITED_SCOPE_def)
  have n: "get_name ev db (jwt_identity rq) = Inr (name usr)"
    using assms by (simp add: get_name_unique)
  have p: "get_pwhash db (name usr) = Inr (pwhash usr)"
    using assms by (simp add: get_pwhash_unique)
  have m: "modify_user ev db (name usr) None (Some np) None None None None =
      (Inr (), map (\<lambda>u. if id' u = id' usr then usr\<lparr>pwhash := hash_password ev np\<rparr> else u) db)"
    using assms by (simp add: modify_user_password)
  show ?thesis
    unfolding UserResetPasswordResource_post_def Let_def
    using assms(4) by (simp add: s o n p m)
qed

text \<open>
  C3 as stated fails for an empty new password: the token issued for \<open>alice\<close> embeds her
  hash, the stored hash has changed since, and the reset with \<open>new_password = ""\<close> answers
  400, not 409.
\<close>

theorem reset_empty_password_counterexample:
  "UserTriggerResetPasswordResource_post None mail_task [alice] ''alice'' =
     (Inr (PyStr '''', 201), Some alice_token) \<and>
   getitem (additional_claims alice_token) ''old_hash'' = Inr (pwhash alice) \<and>
   pwhash (alice\<lparr>pwhash := ''h:changed''\<rparr>) \<noteq> pwhash alice \<and>
   UserResetPasswordResource_post ev0 (request_of_token alice_token ''A'' {})
       [alice\<lparr>pwhash := ''h:changed''\<rparr>] '''' =
     (Inl (HTTPException 400), [alice\<lparr>pwhash := ''h:changed''\<rparr>]) \<and>
   UserResetPasswordResource_post ev0 (request_of_token alice_token ''A'' {})
       [alice\<lparr>pwhash := ''h:changed''\<rparr>] '''' \<noteq>
     (Inl (HTTPException 409), [alice\<lparr>pwhash := ''h:changed''\<rparr>])"
  by (simp add: UserTriggerResetPasswordResource_post_def UserResetPasswordResource_post_def
      get_user_details_def get_user_detail_def get_guid_def get_pwhash_def filter_by_name_def
      run_task_def truthy_def mail_task_def create_access_token_def alice_token_def alice_def
      opt_str_def getitem_def CLAIM_LIMITED_SCOPE_def SCOPE_RESET_PW_def)

text \<open>
  C3, amended. A token issued by the reset trigger embeds the password hash \<open>H0\<close> current
  at issuance, under the reset scope. When it is presented with a non-empty new password
  for a user still in the table: if the stored hash differs from \<open>H0\<close> the reset fails
  with 409 and the table is unchanged; if the stored hash still equals \<open>H0\<close> the answer is
  201 and the user's hash becomes the hash of the new password.
\<close>

theorem reset_token_single_use:
  assumes "UserTriggerResetPasswordResource_post cfg t db0 user_name = (r, Some tok)"
    and "table_ok db1" and "usr \<in> set db1" and "id' usr = identity tok"
    and "guid_ok ev (identity tok)" and "np \<noteq> ''''"
  shows "\<exists>H0. get_pwhash db0 user_name = Inr H0 \<and>
           getitem (additional_claims tok) ''old_hash'' = Inr H0 \<and>
           getitem (additional_claims tok) CLAIM_LIMITED_SCOPE = Inr SCOPE_RESET_PW \<and>
           (pwhash usr \<noteq> H0 \<longrightarrow>
              UserResetPasswordResource_post ev (request_of_token tok tr ps) db1 np =
                (Inl (HTTPException 409), db1)) \<and>
           (pwhash usr = H0 \<longrightarrow>
              UserResetPasswordResource_post ev (request_of_token tok tr ps) db1 np =
                (Inr (PyStr '''', 201),
                 map (\<lambda>u. if id' u = id' usr then usr\<lparr>pwhash := hash_password ev np\<rparr> else u)
                   db1))"
proof -
  from trigger_token [OF assms(1)] obtain g h where
    h: "get_pwhash db0 user_name = Inr h" and
    tok: "tok = create_access_token g [(''old_hash'', h), (CLAIM_LIMITED_SCOPE, SCOPE_RESET_PW)] 1"
    by blast
  let ?rq = "request_of_token tok tr ps"
  have c: "jwt_claims ?rq = [(''old_hash'', h), (CLAIM_LIMITED_SCOPE, SCOPE_RESET_PW)]"
    and i: "jwt_identity ?rq = id' usr"
    using tok assms(4) by (simp_all add: request_of_token_def create_access_token_def)
  have g: "guid_ok ev (id' usr)" using assms(4,5) by simp
  note post = reset_with_claims [OF assms(2,3) g assms(6) i c]
  have "getitem (additional_claims tok) ''old_hash'' = Inr h"
    and "getitem (additional_claims tok) CLAIM_LIMITED_SCOPE = Inr SCOPE_RESET_PW"
    using tok by (simp_all add: create_access_token_def getitem_def CLAIM_LIMITED_SCOPE_def)
  with h post show ?thesis by auto
qed

theorem reset_token_single_use_witness:
  "UserTriggerResetPasswordResource_post None mail_task [alice] ''alice'' =
     (Inr (PyStr '''', 201), Some alice_token) \<and>
   get_pwhash [alice] ''alice'' = Inr ''h:secret'' \<and>
   getitem (additional_claims alice_token) ''old_hash'' = Inr ''h:secret'' \<and>
   table_ok [alice\<lparr>pwhash := ''h:changed''\<rparr>] \<and>
   UserResetPasswordResource_post ev0 (request_of_token alice_token ''A'' {})
       [alice\<lparr>pwhash := ''h:changed''\<rparr>] ''new'' =
     (Inl (HTTPException 409), [alice\<lparr>pwhash := ''h:changed''\<rparr>]) \<and>
   table_ok [alice] \<and>
   UserResetPasswordResource_post ev0 (request_of_token alice_token ''A'' {}) [alice] ''new'' =
     (Inr (PyStr '''', 201), [alice\<lparr>pwhash := ''h:new''\<rparr>])"
proof -
  have tr: "UserTriggerResetPasswordResource_post None mail_task [alice] ''alice'' =
      (Inr (PyStr '''', 201), Some alice_token)"
    by (simp add: UserTriggerResetPasswordResource_post_def
        get_user_details_def get_user_detail_def get_guid_def get_pwhash_def filter_by_name_def
        run_task_def truthy_def mail_task_def create_access_token_def alice_token_def alice_def
        opt_str_def getitem_def CLAIM_LIMITED_SCOPE_def SCOPE_RESET_PW_def)
  have pw: "get_pwhash [alice] ''alice'' = Inr ''h:secret''"
    by (simp add: get_pwhash_def filter_by_name_def alice_def)
  have ok1: "table_ok [alice\<lparr>pwhash := ''h:changed''\<rparr>]" and ok2: "table_ok [alice]"
    by (simp_all add: table_ok_def)
  have idt: "id' (alice\<lparr>pwhash := ''h:changed''\<rparr>) = identity alice_token"
    "id' alice = identity alice_token"
    by (simp_all add: alice_def alice_token_def)
  have gok: "guid_ok ev0 (identity alice_token)" by (simp add: ev0_def)
  have ne: "''new'' \<noteq> ''''" by simp
  have hp: "hash_password ev0 ''new'' = ''h:new''" by (simp add: ev0_def)
  have a: "UserResetPasswordResource_post ev0 (request_of_token alice_token ''A'' {})
       [alice\<lparr>pwhash := ''h:changed''\<rparr>] ''new'' =
     (Inl (HTTPException 409), [alice\<lparr>pwhash := ''h:changed''\<rparr>])"
    using reset_token_single_use [OF tr ok1 _ idt(1) gok ne, where tr = "''A''" and ps = "{}"] pw
    by (auto simp: alice_def)
  have b: "UserResetPasswordResource_post ev0 (request_of_token alice_token ''A'' {}) [alice] ''new'' =
     (Inr (PyStr '''', 201), [alice\<lparr>pwhash := ''h:new''\<rparr>])"
    using reset_token_single_use [OF tr ok2 _ idt(2) gok ne, where tr = "''A''" and ps = "{}"] pw hp
    by (auto simp: alice_def)
  have c: "getitem (additional_claims alice_token) ''old_hash'' = Inr ''h:secret''"
    by (simp add: alice_token_def getitem_def)
  from tr pw c ok1 a ok2 b show ?thesis by simp
qed

end
